theory Spec2Isabelle
  imports Main
begin

section \<open>Core data types (\<^verbatim>\<open>litestar_oauth/types.py\<close>)\<close>

text \<open>The values of a \<^verbatim>\<open>dict[str, Any]\<close> holding a provider's payload.\<close>

datatype json =
    JNull
  | JBool bool
  | JInt int
  | JStr string
  | JList "json list"
  | JObj "(string \<times> json) list"

text \<open>
  Python's truth value of a \<^verbatim>\<open>str | None\<close>: \<^verbatim>\<open>None\<close> and the empty string
  are false, every other string is true.
\<close>

fun truthy :: "string option \<Rightarrow> bool" where
  "truthy None = False"
| "truthy (Some s) = (s \<noteq> [])"

text \<open>
  \<^verbatim>\<open>a or b\<close> on two values of type \<^verbatim>\<open>str | None\<close>: \<open>a\<close> when it is true,
  otherwise \<open>b\<close> as it is.
\<close>

definition py_or :: "string option \<Rightarrow> string option \<Rightarrow> string option" where
  "py_or a b = (if truthy a then a else b)"

datatype error =
    TypeError
  | AttributeError
  | FrozenInstanceError
  | OverflowError

subsection \<open>Dates and durations\<close>

text \<open>
  A \<^verbatim>\<open>datetime\<close> is a point of the UTC timeline, counted in microseconds (the
  resolution of Python's \<^verbatim>\<open>datetime\<close>) from 1970-01-01T00:00:00. Python represents
  the instants from \<^verbatim>\<open>datetime.min\<close> (0001-01-01T00:00:00) to \<^verbatim>\<open>datetime.max\<close>
  (9999-12-31T23:59:59.999999) only.
\<close>

type_synonym datetime = int

definition datetime_min :: datetime where
  "datetime_min = - 62135596800000000"

definition datetime_max :: datetime where
  "datetime_max = 253402300799999999"

text \<open>
  \<^verbatim>\<open>timedelta(seconds=n)\<close> for an integer \<open>n\<close>: the duration in microseconds. The
  constructor normalizes to days, seconds and microseconds and raises
  \<^verbatim>\<open>OverflowError\<close> when the number of days, \<open>n\<close> divided by 86400 rounded down,
  has a magnitude above 999999999.
\<close>

definition timedelta :: "int \<Rightarrow> error + int" where
  "timedelta seconds =
     (if - 999999999 \<le> seconds div 86400 \<and> seconds div 86400 \<le> 999999999
      then Inr (seconds * 1000000)
      else Inl OverflowError)"

text \<open>
  \<^verbatim>\<open>datetime + timedelta\<close>: the sum on the timeline, or \<^verbatim>\<open>OverflowError\<close> (date
  value out of range) when it is not a representable instant.
\<close>

definition datetime_add :: "datetime \<Rightarrow> int \<Rightarrow> error + datetime" where
  "datetime_add d delta =
     (if datetime_min \<le> d + delta \<and> d + delta \<le> datetime_max
      then Inr (d + delta)
      else Inl OverflowError)"

subsection \<open>\<^verbatim>\<open>OAuthUserInfo\<close>\<close>

record OAuthUserInfo =
  provider :: string
  oauth_id :: string
  email :: "string option"
  email_verified :: bool
  username :: "string option"
  first_name :: "string option"
  last_name :: "string option"
  avatar_url :: "string option"
  profile_url :: "string option"
  raw_data :: "(string \<times> json) list"

text \<open>
  The generated \<^verbatim>\<open>__init__\<close>. Every argument is keyword-only. \<^verbatim>\<open>provider\<close> and
  \<^verbatim>\<open>oauth_id\<close> have no default: \<open>None\<close> stands for a call that leaves the keyword
  out, which raises \<^verbatim>\<open>TypeError\<close>. For the fields whose default is \<^verbatim>\<open>None\<close>,
  leaving the keyword out and passing \<^verbatim>\<open>None\<close> are the same call. For
  \<^verbatim>\<open>email_verified\<close> and \<^verbatim>\<open>raw_data\<close>, \<open>None\<close> is the omitted keyword and the
  default (\<^verbatim>\<open>False\<close>, a fresh empty dict) is stored. No value is inspected: there is
  no \<^verbatim>\<open>__post_init__\<close>, and neither dataclasses nor \<^verbatim>\<open>msgspec.Struct.__init__\<close>
  check the arguments further.
\<close>

definition OAuthUserInfo_init ::
  "string option \<Rightarrow> string option \<Rightarrow> string option \<Rightarrow> bool option \<Rightarrow> string option \<Rightarrow>
   string option \<Rightarrow> string option \<Rightarrow> string option \<Rightarrow> string option \<Rightarrow>
   (string \<times> json) list option \<Rightarrow> error + OAuthUserInfo" where
  "OAuthUserInfo_init provider_kw oauth_id_kw email_kw email_verified_kw username_kw
      first_name_kw last_name_kw avatar_url_kw profile_url_kw raw_data_kw =
     (case provider_kw of
        None \<Rightarrow> Inl TypeError
      | Some p \<Rightarrow>
         (case oauth_id_kw of
            None \<Rightarrow> Inl TypeError
          | Some i \<Rightarrow>
              Inr \<lparr> provider = p, oauth_id = i, email = email_kw,
                    email_verified = (case email_verified_kw of None \<Rightarrow> False | Some b \<Rightarrow> b),
                    username = username_kw, first_name = first_name_kw,
                    last_name = last_name_kw, avatar_url = avatar_url_kw,
                    profile_url = profile_url_kw,
                    raw_data = (case raw_data_kw of None \<Rightarrow> [] | Some d \<Rightarrow> d) \<rparr>))"

text \<open>
  The property \<^verbatim>\<open>full_name\<close>:
  \<^verbatim>\<open>
  if self.first_name and self.last_name:
      return f"{self.first_name} {self.last_name}"
  return self.first_name or self.last_name
  \<close>
\<close>

definition full_name :: "OAuthUserInfo \<Rightarrow> string option" where
  "full_name self =
     (if truthy (first_name self) \<and> truthy (last_name self)
      then Some (the (first_name self) @ '' '' @ the (last_name self))
      else py_or (first_name self) (last_name self))"

subsection \<open>\<^verbatim>\<open>OAuthToken\<close>\<close>

record OAuthToken =
  access_token :: string
  token_type :: string
  expires_in :: "int option"
  refresh_token :: "string option"
  scope :: "string option"
  id_token :: "string option"
  raw_response :: "(string \<times> json) list"

text \<open>
  The generated \<^verbatim>\<open>__init__\<close> of \<^verbatim>\<open>OAuthToken\<close>; \<^verbatim>\<open>access_token\<close> is the only
  required keyword, \<^verbatim>\<open>token_type\<close> defaults to \<^verbatim>\<open>"Bearer"\<close>. The constructor
  does not read the clock and the class has no field for the time of construction.
\<close>

definition OAuthToken_init ::
  "string option \<Rightarrow> string option \<Rightarrow> int option \<Rightarrow> string option \<Rightarrow> string option \<Rightarrow>
   string option \<Rightarrow> (string \<times> json) list option \<Rightarrow> error + OAuthToken" where
  "OAuthToken_init access_token_kw token_type_kw expires_in_kw refresh_token_kw scope_kw
      id_token_kw raw_response_kw =
     (case access_token_kw of
        None \<Rightarrow> Inl TypeError
      | Some a \<Rightarrow>
          Inr \<lparr> access_token = a,
                token_type = (case token_type_kw of None \<Rightarrow> ''Bearer'' | Some t \<Rightarrow> t),
                expires_in = expires_in_kw, refresh_token = refresh_token_kw,
                scope = scope_kw, id_token = id_token_kw,
                raw_response = (case raw_response_kw of None \<Rightarrow> [] | Some d \<Rightarrow> d) \<rparr>)"

text \<open>
  The property \<^verbatim>\<open>expires_at\<close>. It calls \<^verbatim>\<open>datetime.now(timezone.utc)\<close> each time
  it is read; \<open>now\<close> is what that call returns at the read. Building the duration
  and adding it to the clock can each raise \<^verbatim>\<open>OverflowError\<close>, which leaves the
  property.
  \<^verbatim>\<open>
  if self.expires_in is None:
      return None
  return datetime.now(timezone.utc) + timedelta(seconds=self.expires_in)
  \<close>
\<close>

definition expires_at :: "datetime \<Rightarrow> OAuthToken \<Rightarrow> error + datetime option" where
  "expires_at now self =
     (case expires_in self of
        None \<Rightarrow> Inr None
      | Some n \<Rightarrow>
          (case timedelta n of
             Inl e \<Rightarrow> Inl e
           | Inr delta \<Rightarrow>
               (case datetime_add now delta of
                  Inl e \<Rightarrow> Inl e
                | Inr t \<Rightarrow> Inr (Some t))))"

subsection \<open>\<^verbatim>\<open>OAuthState\<close>\<close>

record OAuthState =
  state :: string
  provider :: string
  redirect_uri :: string
  created_at :: datetime
  next_url :: "string option"
  extra_data :: "(string \<times> json) list"

text \<open>
  The generated \<^verbatim>\<open>__init__\<close> of \<^verbatim>\<open>OAuthState\<close>. \<^verbatim>\<open>created_at\<close> has the default
  factory \<^verbatim>\<open>lambda: datetime.now(timezone.utc)\<close>, which runs inside the constructor
  when the keyword is left out; \<open>now\<close> is what the clock returns then.
\<close>

definition OAuthState_init ::
  "datetime \<Rightarrow> string option \<Rightarrow> string option \<Rightarrow> string option \<Rightarrow> datetime option \<Rightarrow>
   string option \<Rightarrow> (string \<times> json) list option \<Rightarrow> error + OAuthState" where
  "OAuthState_init now state_kw provider_kw redirect_uri_kw created_at_kw next_url_kw
      extra_data_kw =
     (case state_kw of
        None \<Rightarrow> Inl TypeError
      | Some s \<Rightarrow>
         (case provider_kw of
            None \<Rightarrow> Inl TypeError
          | Some p \<Rightarrow>
             (case redirect_uri_kw of
                None \<Rightarrow> Inl TypeError
              | Some r \<Rightarrow>
                  Inr \<lparr> state = s, provider = p, redirect_uri = r,
                        created_at = (case created_at_kw of None \<Rightarrow> now | Some t \<Rightarrow> t),
                        next_url = next_url_kw,
                        extra_data = (case extra_data_kw of None \<Rightarrow> [] | Some d \<Rightarrow> d) \<rparr>)))"

subsection \<open>Class options and attribute assignment\<close>

text \<open>
  The module defines the three classes twice, under \<^verbatim>\<open>if HAS_MSGSPEC\<close>. With msgspec
  they are declared \<^verbatim>\<open>class C(msgspec.Struct, frozen=True, kw_only=True)\<close>; without it
  they are decorated \<^verbatim>\<open>@dataclass(**_dataclass_kwargs)\<close>, where the dict is built as
  \<^verbatim>\<open>
  _dataclass_kwargs = {"frozen": True}
  _dataclass_kwargs["slots"] = True
  _dataclass_kwargs["kw_only"] = True
  \<close>
\<close>

definition msgspec_struct_kwargs :: "string \<rightharpoonup> bool" where
  "msgspec_struct_kwargs = [''frozen'' \<mapsto> True, ''kw_only'' \<mapsto> True]"

definition dataclass_kwargs :: "string \<rightharpoonup> bool" where
  "dataclass_kwargs =
     (let d = [''frozen'' \<mapsto> True];
          d = d(''slots'' \<mapsto> True);
          d = d(''kw_only'' \<mapsto> True)
      in d)"

definition class_kwargs :: "bool \<Rightarrow> string \<rightharpoonup> bool" where
  "class_kwargs HAS_MSGSPEC = (if HAS_MSGSPEC then msgspec_struct_kwargs else dataclass_kwargs)"

text \<open>Both \<^verbatim>\<open>dataclass\<close> and \<^verbatim>\<open>msgspec.Struct\<close> take \<^verbatim>\<open>frozen=False\<close> by default.\<close>

definition is_frozen :: "(string \<rightharpoonup> bool) \<Rightarrow> bool" where
  "is_frozen kwargs = (case kwargs ''frozen'' of None \<Rightarrow> False | Some b \<Rightarrow> b)"

text \<open>
  The statement \<^verbatim>\<open>obj.name = value\<close> on an instance of one of the three classes;
  \<open>assign\<close> is the field update the statement asks for. A frozen dataclass raises
  \<^verbatim>\<open>dataclasses.FrozenInstanceError\<close> from its generated \<^verbatim>\<open>__setattr__\<close>, a frozen
  \<^verbatim>\<open>msgspec.Struct\<close> raises \<^verbatim>\<open>AttributeError\<close>; neither stores anything. The
  result is the outcome of the statement and the instance after it.
\<close>

definition setattr :: "bool \<Rightarrow> ('obj \<Rightarrow> 'obj) \<Rightarrow> 'obj \<Rightarrow> (error + unit) \<times> 'obj" where
  "setattr HAS_MSGSPEC assign self =
     (if is_frozen (class_kwargs HAS_MSGSPEC)
      then (Inl (if HAS_MSGSPEC then AttributeError else FrozenInstanceError), self)
      else (Inr (), assign self))"

section \<open>Plugin configuration (\<^verbatim>\<open>litestar_oauth/contrib/litestar/config.py\<close>)\<close>

text \<open>
  A value of type \<^verbatim>\<open>Sequence[str]\<close>: a list or a tuple of strings (\<open>Names\<close>), or a
  plain \<^verbatim>\<open>str\<close>, which is a sequence of its one-character strings and satisfies the
  annotation too. Provider names are ASCII, where characters and bytes coincide.
\<close>

datatype str_sequence =
    Names "string list"
  | Str string

text \<open>The items of a sequence, as iterating over it yields them.\<close>

fun items :: "str_sequence \<Rightarrow> string list" where
  "items (Names xs) = xs"
| "items (Str s) = map (\<lambda>c. [c]) s"

text \<open>\<^verbatim>\<open>t.startswith(s)\<close> and the substring test \<^verbatim>\<open>s in t\<close> on two strings.\<close>

fun startswith :: "string \<Rightarrow> string \<Rightarrow> bool" where
  "startswith t [] = True"
| "startswith [] (c # s) = False"
| "startswith (d # t) (c # s) = (d = c \<and> startswith t s)"

fun str_contains :: "string \<Rightarrow> string \<Rightarrow> bool" where
  "str_contains [] s = (s = [])"
| "str_contains (d # t) s = (startswith (d # t) s \<or> str_contains t s)"

text \<open>
  \<^verbatim>\<open>name in seq\<close>: on a list or tuple, equality with one of the items; on a
  \<^verbatim>\<open>str\<close>, Python tests whether \<open>name\<close> occurs in it as a substring.
\<close>

fun py_in :: "string \<Rightarrow> str_sequence \<Rightarrow> bool" where
  "py_in name (Names xs) = (name \<in> set xs)"
| "py_in name (Str s) = str_contains s name"

record OAuthConfig =
  redirect_base_url :: string
  route_prefix :: string
  success_redirect :: string
  failure_redirect :: string
  state_ttl :: int
  enabled_providers :: "str_sequence option"
  github_client_id :: "string option"
  github_client_secret :: "string option"
  github_scope :: string
  google_client_id :: "string option"
  google_client_secret :: "string option"
  google_scope :: string
  discord_client_id :: "string option"
  discord_client_secret :: "string option"
  discord_scope :: string

text \<open>
  A Python dict keeps its keys in insertion order: \<^verbatim>\<open>d[k] = v\<close> replaces the value of
  a key that is there and appends a key that is not.
\<close>

fun dict_set :: "('k \<times> 'v) list \<Rightarrow> 'k \<Rightarrow> 'v \<Rightarrow> ('k \<times> 'v) list" where
  "dict_set [] k v = [(k, v)]"
| "dict_set ((k', v') # d) k v = (if k' = k then (k, v) # d else (k', v') # dict_set d k v)"

text \<open>
  \<^verbatim>\<open>get_configured_providers\<close>. The tests \<^verbatim>\<open>if self.github_client_id and
  self.github_client_secret\<close> are Python truth tests on \<^verbatim>\<open>str | None\<close>; inside a taken
  branch both values are strings. \<^verbatim>\<open>enabled_providers\<close> is annotated
  \<^verbatim>\<open>Sequence[str] | None\<close>, and the filter applies Python's \<^verbatim>\<open>in\<close> to it.
\<close>

definition get_configured_providers ::
  "OAuthConfig \<Rightarrow> (string \<times> (string \<times> string) list) list" where
  "get_configured_providers self =
     (let providers = [];
          providers =
            (if truthy (github_client_id self) \<and> truthy (github_client_secret self)
             then dict_set providers ''github''
                    [(''client_id'', the (github_client_id self)),
                     (''client_secret'', the (github_client_secret self)),
                     (''scope'', github_scope self)]
             else providers);
          providers =
            (if truthy (google_client_id self) \<and> truthy (google_client_secret self)
             then dict_set providers ''google''
                    [(''client_id'', the (google_client_id self)),
                     (''client_secret'', the (google_client_secret self)),
                     (''scope'', google_scope self)]
             else providers);
          providers =
            (if truthy (discord_client_id self) \<and> truthy (discord_client_secret self)
             then dict_set providers ''discord''
                    [(''client_id'', the (discord_client_id self)),
                     (''client_secret'', the (discord_client_secret self)),
                     (''scope'', discord_scope self)]
             else providers);
          providers =
            (case enabled_providers self of
               None \<Rightarrow> providers
             | Some enabled \<Rightarrow> filter (\<lambda>(name, config). py_in name enabled) providers)
      in providers)"

section \<open>State tokens and login completion\<close>

text \<open>
  The state store and the orchestrator are not part of the sources at hand: the test
  suite only calls them (\<^verbatim>\<open>create_state\<close>, \<^verbatim>\<open>validate_state\<close>,
  \<^verbatim>\<open>exchange_code\<close>, \<^verbatim>\<open>get_user_info\<close> of the service under test). The definitions
  of this section follow the specification's description of them.
\<close>

subsection \<open>StateStore\<close>

text \<open>
  Modelled from the spec: the StateRecord of the data model (the token, which is also
  the storage key, the provider, the redirect URI, the creation and expiry timestamps,
  the optional next URL and the caller's extra context) and the store that maps tokens
  to records, with its configured default TTL in seconds.
\<close>

record StateRecord =
  token :: string
  provider :: string
  redirectURI :: string
  createdAt :: datetime
  expiresAt :: datetime
  nextURL :: "string option"
  extra :: "(string \<times> json) list"

record StateStore =
  defaultTTL :: int
  records :: "string \<rightharpoonup> StateRecord"

text \<open>
  Modelled from the spec: a TTL of \<open>ttlSeconds\<close> seconds as a distance on the
  timeline of the timestamps, which counts microseconds.
\<close>

definition of_seconds :: "int \<Rightarrow> int" where
  "of_seconds ttlSeconds = ttlSeconds * 1000000"

text \<open>
  Modelled from the spec: \<^verbatim>\<open>StateStore.Create\<close>, whose implementation is missing.
  It builds a record with \<open>createdAt = now\<close> and \<open>expiresAt = now + ttlSeconds\<close>
  (\<open>ttlSeconds\<close> defaulting to the configured value), stores it keyed by the token
  and returns the token. The token comes from a CSPRNG; \<open>fresh\<close> is the string the
  generator hands out for this call.
\<close>

definition Create ::
  "StateStore \<Rightarrow> datetime \<Rightarrow> string \<Rightarrow> string \<Rightarrow> string \<Rightarrow> int option \<Rightarrow> string option \<Rightarrow>
   (string \<times> json) list \<Rightarrow> string \<times> StateStore" where
  "Create store now fresh provider_arg redirectURI_arg ttlSeconds nextURL_arg extra_arg =
     (let ttl = (case ttlSeconds of None \<Rightarrow> defaultTTL store | Some d \<Rightarrow> d);
          record = \<lparr> token = fresh, provider = provider_arg, redirectURI = redirectURI_arg,
                     createdAt = now, expiresAt = now + of_seconds ttl,
                     nextURL = nextURL_arg, extra = extra_arg \<rparr>
      in (fresh, store\<lparr>records := (records store)(fresh \<mapsto> record)\<rparr>))"

text \<open>
  Modelled from the spec: \<^verbatim>\<open>StateStore.Validate\<close>, whose implementation is missing.
  It looks the record up by token. If absent it returns not-found. If present but
  \<open>now > expiresAt\<close>, it deletes the record and returns not-found. Otherwise it
  deletes the record and returns it. Not-found is \<open>None\<close>; nothing is raised.
\<close>

definition Validate ::
  "StateStore \<Rightarrow> datetime \<Rightarrow> string \<Rightarrow> StateRecord option \<times> StateStore" where
  "Validate store now tok =
     (case records store tok of
        None \<Rightarrow> (None, store)
      | Some record \<Rightarrow>
          (if now > expiresAt record
           then (None, store\<lparr>records := (records store)(tok := None)\<rparr>)
           else (Some record, store\<lparr>records := (records store)(tok := None)\<rparr>)))"

text \<open>
  The calls a store receives over time, each with the clock value at the call, and the
  store they leave behind.
\<close>

datatype store_call =
    CallCreate datetime string string string "int option" "string option" "(string \<times> json) list"
  | CallValidate datetime string

fun run_call :: "StateStore \<Rightarrow> store_call \<Rightarrow> StateStore" where
  "run_call store (CallCreate now fresh p u ttl nx ex) = snd (Create store now fresh p u ttl nx ex)"
| "run_call store (CallValidate now tok) = snd (Validate store now tok)"

fun run_calls :: "StateStore \<Rightarrow> store_call list \<Rightarrow> StateStore" where
  "run_calls store [] = store"
| "run_calls store (c # cs) = run_calls (run_call store c) cs"

text \<open>The token a call is about: the one it issues or the one it validates.\<close>

fun call_token :: "store_call \<Rightarrow> string" where
  "call_token (CallCreate now fresh p u ttl nx ex) = fresh"
| "call_token (CallValidate now tok) = tok"

fun issues :: "string \<Rightarrow> store_call \<Rightarrow> bool" where
  "issues t (CallCreate now fresh p u ttl nx ex) = (fresh = t)"
| "issues t (CallValidate now tok) = False"

subsection \<open>Orchestrator: completing a login\<close>

datatype oauth_error =
    InvalidProviderError
  | ProviderNotConfiguredError
  | StateValidationError
  | TokenExchangeError
  | TokenRefreshError
  | UserInfoError

text \<open>
  A provider client, as far as completing a login uses it: its token exchange, its
  profile fetch and its normalizer, each of which may fail with an error of the taxonomy.
\<close>

record ProviderClient =
  exchangeCode :: "string \<Rightarrow> string \<Rightarrow> oauth_error + OAuthToken"
  fetchUserInfo :: "string \<Rightarrow> oauth_error + (string \<times> json) list"
  normalize :: "(string \<times> json) list \<Rightarrow> oauth_error + OAuthUserInfo"

text \<open>The provider operations an orchestrator has invoked, oldest first.\<close>

datatype provider_call =
    ExchangeCode string string string
  | FetchUserInfo string string

record Orchestrator =
  stateStore :: StateStore
  registry :: "string \<rightharpoonup> ProviderClient"
  invoked :: "provider_call list"

text \<open>
  Modelled from the spec: \<^verbatim>\<open>OAuthOrchestrator.CompleteLogin\<close>, whose implementation
  is missing. It validates \<open>state\<close> via the StateStore and fails with
  \<open>StateValidationError\<close> if the token is consumed, expired or unknown, or if the
  record's provider does not match \<open>providerName\<close>; on success it calls
  \<open>exchangeCode\<close>, then \<open>fetchUserInfo\<close>, then normalizes, and hands the provider
  layer's errors on unchanged. A provider name that passes the state check but is not
  registered fails with \<open>InvalidProviderError\<close>. The redirect URI sent with the
  code is the one stored in the state record.
\<close>

definition CompleteLogin ::
  "Orchestrator \<Rightarrow> datetime \<Rightarrow> string \<Rightarrow> string \<Rightarrow> string \<Rightarrow>
   (oauth_error + OAuthUserInfo \<times> OAuthToken) \<times> Orchestrator" where
  "CompleteLogin orch now providerName code state_arg =
     (case Validate (stateStore orch) now state_arg of
        (found, store') \<Rightarrow>
          (let orch1 = orch\<lparr>stateStore := store'\<rparr> in
           case found of
             None \<Rightarrow> (Inl StateValidationError, orch1)
           | Some record \<Rightarrow>
               if StateRecord.provider record \<noteq> providerName
               then (Inl StateValidationError, orch1)
               else
                 (case registry orch1 providerName of
                    None \<Rightarrow> (Inl InvalidProviderError, orch1)
                  | Some client \<Rightarrow>
                      (let orch2 = orch1\<lparr>invoked :=
                             invoked orch1 @ [ExchangeCode providerName code (redirectURI record)]\<rparr>
                       in case exchangeCode client code (redirectURI record) of
                            Inl e \<Rightarrow> (Inl e, orch2)
                          | Inr tok \<Rightarrow>
                              (let orch3 = orch2\<lparr>invoked :=
                                     invoked orch2 @ [FetchUserInfo providerName (access_token tok)]\<rparr>
                               in case fetchUserInfo client (access_token tok) of
                                    Inl e \<Rightarrow> (Inl e, orch3)
                                  | Inr raw \<Rightarrow>
                                      (case normalize client raw of
                                         Inl e \<Rightarrow> (Inl e, orch3)
                                       | Inr user \<Rightarrow> (Inr (user, tok), orch3)))))))"

section \<open>Properties of the data types\<close>

subsection \<open>Token expiry\<close>

lemma OAuthToken_init_expires_in:
  "OAuthToken_init a tt ei rt sc it rr = Inr tok \<Longrightarrow> expires_in tok = ei"
  by (auto simp: OAuthToken_init_def split: option.splits)

lemma timedelta_error: "timedelta n = Inl e \<Longrightarrow> e = OverflowError"
  by (simp add: timedelta_def split: if_splits)

lemma timedelta_value: "timedelta n = Inr delta \<Longrightarrow> delta = n * 1000000"
  by (simp add: timedelta_def split: if_splits)

text \<open>
  Between two representable instants lie fewer than 3652059 days, so the duration from
  one to the other is within the range of \<^verbatim>\<open>timedelta\<close>.
\<close>

lemma timedelta_between_instants:
  assumes "datetime_min \<le> now" and "now \<le> datetime_max"
    and "datetime_min \<le> now + n * 1000000" and "now + n * 1000000 \<le> datetime_max"
  shows "timedelta n = Inr (n * 1000000)"
proof -
  from assms have "n * 1000000 \<le> 315537897599999999" and "- 315537897599999999 \<le> n * 1000000"
    by (simp_all add: datetime_min_def datetime_max_def)
  then have "n \<le> 315537897599" and "- 315537897599 \<le> n"
    by arith+
  then have "n div 86400 \<le> 315537897599 div 86400"
    and "(- 315537897599) div 86400 \<le> n div 86400"
    by (simp_all add: zdiv_mono1)
  then have "n div 86400 \<le> 999999999" and "- 999999999 \<le> n div 86400"
    by simp_all
  then show ?thesis
    by (simp add: timedelta_def)
qed

lemma expires_at_value:
  assumes "datetime_min \<le> now" and "now \<le> datetime_max"
    and "expires_in tok = Some n"
  shows "expires_at now tok =
           (if datetime_min \<le> now + n * 1000000 \<and> now + n * 1000000 \<le> datetime_max
            then Inr (Some (now + n * 1000000))
            else Inl OverflowError)"
proof (cases "datetime_min \<le> now + n * 1000000 \<and> now + n * 1000000 \<le> datetime_max")
  case True
  with assms(1,2) have "timedelta n = Inr (n * 1000000)"
    by (simp add: timedelta_between_instants)
  with True assms(3) show ?thesis
    by (simp add: expires_at_def datetime_add_def)
next
  case False
  show ?thesis
  proof (cases "timedelta n")
    case (Inl e)
    with False assms(3) show ?thesis
      by (simp add: expires_at_def timedelta_error)
  next
    case (Inr delta)
    then have "delta = n * 1000000"
      by (rule timedelta_value)
    with Inr False assms(3) show ?thesis
      by (auto simp: expires_at_def datetime_add_def)
  qed
qed

text \<open>
  C3 asks that \<^verbatim>\<open>expires_at\<close> be the clock at construction plus \<^verbatim>\<open>expires_in\<close>
  seconds, the same at every later read. The property adds \<^verbatim>\<open>expires_in\<close> to the
  clock at the read instead: a token built at clock 0 with \<^verbatim>\<open>expires_in=3600\<close> gives
  3600 s when read at once and 3610 s when read ten seconds later.
\<close>

theorem expires_at_recomputed_on_read:
  "OAuthToken_init (Some ''gho_1234567890abcdef'') None (Some 3600) None None None None
     = Inr \<lparr> access_token = ''gho_1234567890abcdef'', token_type = ''Bearer'',
             expires_in = Some 3600, refresh_token = None, scope = None, id_token = None,
             raw_response = [] \<rparr>
   \<and> expires_at 0 \<lparr> access_token = ''gho_1234567890abcdef'', token_type = ''Bearer'',
             expires_in = Some 3600, refresh_token = None, scope = None, id_token = None,
             raw_response = [] \<rparr> = Inr (Some 3600000000)
   \<and> expires_at 10000000 \<lparr> access_token = ''gho_1234567890abcdef'', token_type = ''Bearer'',
             expires_in = Some 3600, refresh_token = None, scope = None, id_token = None,
             raw_response = [] \<rparr> = Inr (Some 3610000000)"
  by (simp add: OAuthToken_init_def expires_at_def timedelta_def datetime_add_def
      datetime_min_def datetime_max_def)




text \<open>
  C9 as stated fails for a large negative \<^verbatim>\<open>expires_in\<close>: with the clock at
  2023-11-14T22:13:20 and \<^verbatim>\<open>expires_in=-10**12\<close>, the sum lies before
  \<^verbatim>\<open>datetime.min\<close> and reading \<^verbatim>\<open>expires_at\<close> raises \<^verbatim>\<open>OverflowError\<close>: no value
  is present.
\<close>

theorem expires_at_overflow_negative:
  "OAuthToken_init (Some ''tok'') None (Some (- 1000000000000)) None None None None
     = Inr \<lparr> access_token = ''tok'', token_type = ''Bearer'',
             expires_in = Some (- 1000000000000), refresh_token = None, scope = None,
             id_token = None, raw_response = [] \<rparr>
   \<and> expires_at 1700000000000000 \<lparr> access_token = ''tok'', token_type = ''Bearer'',
             expires_in = Some (- 1000000000000), refresh_token = None, scope = None,
             id_token = None, raw_response = [] \<rparr> = Inl OverflowError"
  by (simp add: OAuthToken_init_def expires_at_def timedelta_def datetime_add_def
      datetime_min_def datetime_max_def)

text \<open>
  C9, amended: for a token constructed with \<^verbatim>\<open>expires_in\<close> equal to 0 or negative,
  read at clock \<open>now\<close>: when \<open>now\<close> plus \<^verbatim>\<open>expires_in\<close> seconds is not before
  \<^verbatim>\<open>datetime.min\<close>, \<^verbatim>\<open>expires_at\<close> is present and equals that sum, which is never
  later than \<open>now\<close>; for \<^verbatim>\<open>expires_in = 0\<close> it is \<open>now\<close>. When the sum is before
  \<^verbatim>\<open>datetime.min\<close>, reading \<^verbatim>\<open>expires_at\<close> raises \<^verbatim>\<open>OverflowError\<close>.
\<close>

theorem expires_at_nonpositive:
  assumes "OAuthToken_init a tt (Some n) rt sc it rr = Inr tok"
    and "datetime_min \<le> now" and "now \<le> datetime_max"
    and "n \<le> 0"
  shows "(datetime_min \<le> now + n * 1000000 \<longrightarrow>
            expires_at now tok = Inr (Some (now + n * 1000000)) \<and> now + n * 1000000 \<le> now)
         \<and> (now + n * 1000000 < datetime_min \<longrightarrow> expires_at now tok = Inl OverflowError)
         \<and> (n = 0 \<longrightarrow> expires_at now tok = Inr (Some now))"
proof -
  from assms(1) have "expires_in tok = Some n"
    by (rule OAuthToken_init_expires_in)
  with assms(2,3) have result: "expires_at now tok =
      (if datetime_min \<le> now + n * 1000000 \<and> now + n * 1000000 \<le> datetime_max
       then Inr (Some (now + n * 1000000)) else Inl OverflowError)"
    by (rule expires_at_value)
  from assms(4) have past: "now + n * 1000000 \<le> now"
    by (simp add: mult_le_0_iff)
  with assms(3) have "now + n * 1000000 \<le> datetime_max"
    by simp
  with result past assms(2) show ?thesis
    by auto
qed

theorem expires_at_nonpositive_witness:
  "expires_at 1700000000000000 \<lparr> access_token = ''tok'', token_type = ''Bearer'',
      expires_in = Some 0, refresh_token = None, scope = None, id_token = None,
      raw_response = [] \<rparr> = Inr (Some 1700000000000000)
   \<and> expires_at 1700000000000000 \<lparr> access_token = ''tok'', token_type = ''Bearer'',
      expires_in = Some (- 2), refresh_token = None, scope = None, id_token = None,
      raw_response = [] \<rparr> = Inr (Some 1699999998000000)
   \<and> expires_at 1700000000000000 \<lparr> access_token = ''tok'', token_type = ''Bearer'',
      expires_in = Some (- 1000000000000), refresh_token = None, scope = None,
      id_token = None, raw_response = [] \<rparr> = Inl OverflowError"
proof -
  have a: "OAuthToken_init (Some ''tok'') None (Some 0) None None None None
      = Inr \<lparr> access_token = ''tok'', token_type = ''Bearer'',
      expires_in = Some 0, refresh_token = None, scope = None, id_token = None,
      raw_response = [] \<rparr>"
    by (simp add: OAuthToken_init_def)
  have b: "OAuthToken_init (Some ''tok'') None (Some (- 2)) None None None None
      = Inr \<lparr> access_token = ''tok'', token_type = ''Bearer'',
      expires_in = Some (- 2), refresh_token = None, scope = None, id_token = None,
      raw_response = [] \<rparr>"
    by (simp add: OAuthToken_init_def)
  have c: "OAuthToken_init (Some ''tok'') None (Some (- 1000000000000)) None None None None
      = Inr \<lparr> access_token = ''tok'', token_type = ''Bearer'',
      expires_in = Some (- 1000000000000), refresh_token = None, scope = None,
      id_token = None, raw_response = [] \<rparr>"
    by (simp add: OAuthToken_init_def)
  have lo: "datetime_min \<le> 1700000000000000" and hi: "1700000000000000 \<le> datetime_max"
    by (simp_all add: datetime_min_def datetime_max_def)
  have z: "(0::int) \<le> 0" and m: "(- 2::int) \<le> 0" and g: "(- 1000000000000::int) \<le> 0"
    by simp_all
  from expires_at_nonpositive [OF a lo hi z] expires_at_nonpositive [OF b lo hi m]
    expires_at_nonpositive [OF c lo hi g]
  show ?thesis
    by (simp add: datetime_min_def)
qed

subsection \<open>Full name\<close>

text \<open>
  C5 as stated, with present meaning not \<^verbatim>\<open>None\<close>, fails on an empty string: with
  \<^verbatim>\<open>first_name=""\<close> and \<^verbatim>\<open>last_name="Octocat"\<close> both names are present, and
  \<^verbatim>\<open>full_name\<close> is \<^verbatim>\<open>"Octocat"\<close>, not \<^verbatim>\<open>" Octocat"\<close>.
\<close>

theorem full_name_empty_first_name:
  "first_name \<lparr> OAuthUserInfo.provider = ''github'', oauth_id = ''12345678'', email = None,
                email_verified = False, username = None, first_name = Some '''',
                last_name = Some ''Octocat'', avatar_url = None, profile_url = None,
                raw_data = [] \<rparr> = Some ''''
   \<and> last_name \<lparr> OAuthUserInfo.provider = ''github'', oauth_id = ''12345678'', email = None,
                email_verified = False, username = None, first_name = Some '''',
                last_name = Some ''Octocat'', avatar_url = None, profile_url = None,
                raw_data = [] \<rparr> = Some ''Octocat''
   \<and> full_name \<lparr> OAuthUserInfo.provider = ''github'', oauth_id = ''12345678'', email = None,
                email_verified = False, username = None, first_name = Some '''',
                last_name = Some ''Octocat'', avatar_url = None, profile_url = None,
                raw_data = [] \<rparr> = Some ''Octocat''
   \<and> full_name \<lparr> OAuthUserInfo.provider = ''github'', oauth_id = ''12345678'', email = None,
                email_verified = False, username = None, first_name = Some '''',
                last_name = Some ''Octocat'', avatar_url = None, profile_url = None,
                raw_data = [] \<rparr> \<noteq> Some ('''' @ '' '' @ ''Octocat'')"
  by (simp add: full_name_def py_or_def)

text \<open>
  C5, amended: \<^verbatim>\<open>full_name\<close> is \<^verbatim>\<open>first_name + " " + last_name\<close> when both are
  non-empty strings; it is \<^verbatim>\<open>first_name\<close> when only \<^verbatim>\<open>first_name\<close> is a non-empty
  string; in every other case it is \<^verbatim>\<open>last_name\<close> as stored, so it is \<^verbatim>\<open>None\<close>
  when both are \<^verbatim>\<open>None\<close>.
\<close>

theorem full_name_cases:
  "(\<forall>f l. first_name u = Some f \<and> f \<noteq> [] \<and> last_name u = Some l \<and> l \<noteq> [] \<longrightarrow>
        full_name u = Some (f @ '' '' @ l))
   \<and> (truthy (first_name u) \<and> \<not> truthy (last_name u) \<longrightarrow> full_name u = first_name u)
   \<and> (\<not> truthy (first_name u) \<longrightarrow> full_name u = last_name u)
   \<and> (first_name u = None \<and> last_name u = None \<longrightarrow> full_name u = None)"
  by (auto simp: full_name_def py_or_def)

theorem full_name_cases_witness:
  "full_name \<lparr> OAuthUserInfo.provider = ''github'', oauth_id = ''1'', email = None,
                email_verified = False, username = None, first_name = Some ''The'',
                last_name = Some ''Octocat'', avatar_url = None, profile_url = None,
                raw_data = [] \<rparr> = Some ''The Octocat''
   \<and> full_name \<lparr> OAuthUserInfo.provider = ''github'', oauth_id = ''1'', email = None,
                email_verified = False, username = None, first_name = Some ''The'',
                last_name = None, avatar_url = None, profile_url = None,
                raw_data = [] \<rparr> = Some ''The''
   \<and> full_name \<lparr> OAuthUserInfo.provider = ''github'', oauth_id = ''1'', email = None,
                email_verified = False, username = None, first_name = None,
                last_name = Some ''Octocat'', avatar_url = None, profile_url = None,
                raw_data = [] \<rparr> = Some ''Octocat''
   \<and> full_name \<lparr> OAuthUserInfo.provider = ''github'', oauth_id = ''1'', email = None,
                email_verified = False, username = None, first_name = None,
                last_name = None, avatar_url = None, profile_url = None,
                raw_data = [] \<rparr> = None"
  using
    full_name_cases [of "\<lparr> OAuthUserInfo.provider = ''github'', oauth_id = ''1'', email = None,
                email_verified = False, username = None, first_name = Some ''The'',
                last_name = Some ''Octocat'', avatar_url = None, profile_url = None,
                raw_data = [] \<rparr>"]
    full_name_cases [of "\<lparr> OAuthUserInfo.provider = ''github'', oauth_id = ''1'', email = None,
                email_verified = False, username = None, first_name = Some ''The'',
                last_name = None, avatar_url = None, profile_url = None,
                raw_data = [] \<rparr>"]
    full_name_cases [of "\<lparr> OAuthUserInfo.provider = ''github'', oauth_id = ''1'', email = None,
                email_verified = False, username = None, first_name = None,
                last_name = Some ''Octocat'', avatar_url = None, profile_url = None,
                raw_data = [] \<rparr>"]
    full_name_cases [of "\<lparr> OAuthUserInfo.provider = ''github'', oauth_id = ''1'', email = None,
                email_verified = False, username = None, first_name = None,
                last_name = None, avatar_url = None, profile_url = None,
                raw_data = [] \<rparr>"]
  by simp

subsection \<open>Required fields of the user record\<close>

text \<open>
  C6 as stated fails: the constructor accepts an empty \<^verbatim>\<open>provider\<close> and an empty
  \<^verbatim>\<open>oauth_id\<close> and stores them.
\<close>

theorem OAuthUserInfo_init_accepts_empty:
  "OAuthUserInfo_init (Some '''') (Some '''') None None None None None None None None
     = Inr \<lparr> OAuthUserInfo.provider = '''', oauth_id = '''', email = None,
             email_verified = False, username = None, first_name = None, last_name = None,
             avatar_url = None, profile_url = None, raw_data = [] \<rparr>"
  by (simp add: OAuthUserInfo_init_def)

text \<open>
  C6, amended: \<^verbatim>\<open>provider\<close> and \<^verbatim>\<open>oauth_id\<close> are required. Construction fails
  (with \<^verbatim>\<open>TypeError\<close>) exactly when one of the two keywords is left out; when both are
  given, construction succeeds and the record holds the two strings as given, empty or
  not.
\<close>

theorem OAuthUserInfo_init_required:
  "(OAuthUserInfo_init p i e ev un fn ln av pr rd = Inl TypeError \<longleftrightarrow> p = None \<or> i = None)
   \<and> (\<forall>pv iv. p = Some pv \<and> i = Some iv \<longrightarrow>
        (\<exists>u. OAuthUserInfo_init p i e ev un fn ln av pr rd = Inr u
              \<and> OAuthUserInfo.provider u = pv \<and> oauth_id u = iv))"
  by (cases p; cases i) (simp_all add: OAuthUserInfo_init_def)

theorem OAuthUserInfo_init_required_witness:
  "OAuthUserInfo_init None (Some ''12345678'') None None None None None None None None
     = Inl TypeError
   \<and> (\<exists>u. OAuthUserInfo_init (Some ''github'') (Some ''12345678'') None None None None None
             None None None = Inr u
          \<and> OAuthUserInfo.provider u = ''github'' \<and> oauth_id u = ''12345678'')"
  using
    OAuthUserInfo_init_required [of None "Some ''12345678''" None None None None None None None None]
    OAuthUserInfo_init_required [of "Some ''github''" "Some ''12345678''" None None None None None
      None None None]
  by simp

subsection \<open>Immutability\<close>

text \<open>
  C7: on an instance of \<^verbatim>\<open>OAuthUserInfo\<close>, \<^verbatim>\<open>OAuthToken\<close> or \<^verbatim>\<open>OAuthState\<close>, under
  either definition of the classes, every attribute assignment fails and the instance
  after it is the instance before it.
\<close>

theorem frozen_classes_reject_assignment:
  "setattr HAS_MSGSPEC assign_user (user :: OAuthUserInfo)
     = (Inl (if HAS_MSGSPEC then AttributeError else FrozenInstanceError), user)
   \<and> setattr HAS_MSGSPEC assign_token (tok :: OAuthToken)
     = (Inl (if HAS_MSGSPEC then AttributeError else FrozenInstanceError), tok)
   \<and> setattr HAS_MSGSPEC assign_state (st :: OAuthState)
     = (Inl (if HAS_MSGSPEC then AttributeError else FrozenInstanceError), st)"
  by (cases HAS_MSGSPEC)
    (simp_all add: setattr_def is_frozen_def class_kwargs_def msgspec_struct_kwargs_def
      dataclass_kwargs_def)

theorem frozen_classes_reject_assignment_witness:
  "setattr False (\<lambda>t. t\<lparr>access_token := ''new_token''\<rparr>)
      \<lparr> access_token = ''test'', token_type = ''Bearer'', expires_in = None,
        refresh_token = None, scope = None, id_token = None, raw_response = [] \<rparr>
     = (Inl FrozenInstanceError,
        \<lparr> access_token = ''test'', token_type = ''Bearer'', expires_in = None,
          refresh_token = None, scope = None, id_token = None, raw_response = [] \<rparr>)"
  using frozen_classes_reject_assignment [of False _ _ "\<lambda>t. t\<lparr>access_token := ''new_token''\<rparr>"
      "\<lparr> access_token = ''test'', token_type = ''Bearer'', expires_in = None,
        refresh_token = None, scope = None, id_token = None, raw_response = [] \<rparr>"]
  by simp

section \<open>Properties of the plugin configuration\<close>

lemma startswith_iff: "startswith t s \<longleftrightarrow> (\<exists>post. t = s @ post)"
  by (induction t s rule: startswith.induct) auto

lemma str_contains_iff: "str_contains t s \<longleftrightarrow> (\<exists>pre post. t = pre @ s @ post)"
proof (induction t)
  case Nil
  then show ?case by auto
next
  case (Cons d t)
  show ?case
  proof
    assume "str_contains (d # t) s"
    then consider "startswith (d # t) s" | "str_contains t s"
      by auto
    then show "\<exists>pre post. d # t = pre @ s @ post"
    proof cases
      case 1
      then obtain post where "d # t = [] @ s @ post"
        by (auto simp: startswith_iff)
      then show ?thesis by blast
    next
      case 2
      with Cons.IH obtain pre post where "t = pre @ s @ post"
        by blast
      then have "d # t = (d # pre) @ s @ post"
        by simp
      then show ?thesis by blast
    qed
  next
    assume "\<exists>pre post. d # t = pre @ s @ post"
    then obtain pre post where eq: "d # t = pre @ s @ post"
      by blast
    show "str_contains (d # t) s"
    proof (cases pre)
      case Nil
      with eq have "startswith (d # t) s"
        by (auto simp: startswith_iff)
      then show ?thesis by simp
    next
      case (Cons e pre')
      with eq have "t = pre' @ s @ post"
        by simp
      with Cons.IH have "str_contains t s"
        by blast
      then show ?thesis by simp
    qed
  qed
qed

lemma three_build:
  "(let providers = [];
        providers = (if a then dict_set providers ''github'' x else providers);
        providers = (if b then dict_set providers ''google'' y else providers);
        providers = (if c then dict_set providers ''discord'' z else providers);
        providers = g providers
    in providers) =
   g ((if a then [(''github'', x)] else []) @ (if b then [(''google'', y)] else []) @
      (if c then [(''discord'', z)] else []))"
  by (simp add: Let_def)

lemma three_filter:
  "filter (\<lambda>(name, config). P name)
     ((if a then [(''github'', x)] else []) @ (if b then [(''google'', y)] else []) @
      (if c then [(''discord'', z)] else [])) =
    (if a \<and> P ''github'' then [(''github'', x)] else []) @
    (if b \<and> P ''google'' then [(''google'', y)] else []) @
    (if c \<and> P ''discord'' then [(''discord'', z)] else [])"
  by auto

lemma three_lookup:
  "map_of ((if a then [(''github'', x)] else []) @ (if b then [(''google'', y)] else []) @
           (if c then [(''discord'', z)] else [])) name = Some conf \<longleftrightarrow>
     (name = ''github'' \<and> a \<and> conf = x \<or> name = ''google'' \<and> b \<and> conf = y \<or>
      name = ''discord'' \<and> c \<and> conf = z)"
  by auto

lemma three_distinct:
  "distinct (map fst ((if a then [(''github'', x)] else []) @
      (if b then [(''google'', y)] else []) @ (if c then [(''discord'', z)] else [])))"
  by auto

lemma credentials_iff:
  "truthy i \<and> truthy s \<and>
     conf = [(''client_id'', the i), (''client_secret'', the s), (''scope'', sc)]
   \<longleftrightarrow> (\<exists>cid secret. i = Some cid \<and> cid \<noteq> [] \<and> s = Some secret \<and> secret \<noteq> [] \<and>
          conf = [(''client_id'', cid), (''client_secret'', secret), (''scope'', sc)])"
  by (cases i; cases s) auto

lemma get_configured_providers_unfold:
  "get_configured_providers cfg =
    (case enabled_providers cfg of
       None \<Rightarrow>
        (if truthy (github_client_id cfg) \<and> truthy (github_client_secret cfg)
         then [(''github'', [(''client_id'', the (github_client_id cfg)),
                             (''client_secret'', the (github_client_secret cfg)),
                             (''scope'', github_scope cfg)])] else []) @
        (if truthy (google_client_id cfg) \<and> truthy (google_client_secret cfg)
         then [(''google'', [(''client_id'', the (google_client_id cfg)),
                             (''client_secret'', the (google_client_secret cfg)),
                             (''scope'', google_scope cfg)])] else []) @
        (if truthy (discord_client_id cfg) \<and> truthy (discord_client_secret cfg)
         then [(''discord'', [(''client_id'', the (discord_client_id cfg)),
                              (''client_secret'', the (discord_client_secret cfg)),
                              (''scope'', discord_scope cfg)])] else [])
     | Some enabled \<Rightarrow> filter (\<lambda>(name, config). py_in name enabled)
        ((if truthy (github_client_id cfg) \<and> truthy (github_client_secret cfg)
          then [(''github'', [(''client_id'', the (github_client_id cfg)),
                              (''client_secret'', the (github_client_secret cfg)),
                              (''scope'', github_scope cfg)])] else []) @
         (if truthy (google_client_id cfg) \<and> truthy (google_client_secret cfg)
          then [(''google'', [(''client_id'', the (google_client_id cfg)),
                              (''client_secret'', the (google_client_secret cfg)),
                              (''scope'', google_scope cfg)])] else []) @
         (if truthy (discord_client_id cfg) \<and> truthy (discord_client_secret cfg)
          then [(''discord'', [(''client_id'', the (discord_client_id cfg)),
                               (''client_secret'', the (discord_client_secret cfg)),
                               (''scope'', discord_scope cfg)])] else [])))"
  unfolding get_configured_providers_def by (rule three_build)

lemma get_configured_providers_distinct:
  "distinct (map fst (get_configured_providers cfg))"
proof (cases "enabled_providers cfg")
  case None
  show ?thesis
    unfolding get_configured_providers_unfold None option.case
    by (rule three_distinct)
next
  case (Some enabled)
  show ?thesis
    unfolding get_configured_providers_unfold Some option.case three_filter
    by (rule three_distinct)
qed

lemma get_configured_providers_lookup:
  "map_of (get_configured_providers cfg) name = Some conf \<longleftrightarrow>
     (case enabled_providers cfg of None \<Rightarrow> True | Some enabled \<Rightarrow> py_in name enabled) \<and>
     (name = ''github'' \<and>
        (\<exists>cid secret. github_client_id cfg = Some cid \<and> cid \<noteq> [] \<and>
           github_client_secret cfg = Some secret \<and> secret \<noteq> [] \<and>
           conf = [(''client_id'', cid), (''client_secret'', secret),
                   (''scope'', github_scope cfg)])
      \<or> name = ''google'' \<and>
        (\<exists>cid secret. google_client_id cfg = Some cid \<and> cid \<noteq> [] \<and>
           google_client_secret cfg = Some secret \<and> secret \<noteq> [] \<and>
           conf = [(''client_id'', cid), (''client_secret'', secret),
                   (''scope'', google_scope cfg)])
      \<or> name = ''discord'' \<and>
        (\<exists>cid secret. discord_client_id cfg = Some cid \<and> cid \<noteq> [] \<and>
           discord_client_secret cfg = Some secret \<and> secret \<noteq> [] \<and>
           conf = [(''client_id'', cid), (''client_secret'', secret),
                   (''scope'', discord_scope cfg)]))"
proof (cases "enabled_providers cfg")
  case None
  show ?thesis
    unfolding get_configured_providers_unfold None option.case three_lookup
      credentials_iff [symmetric]
    by blast
next
  case (Some enabled)
  show ?thesis
    unfolding get_configured_providers_unfold Some option.case three_filter three_lookup
      credentials_iff [symmetric]
    by blast
qed

text \<open>
  C8 as stated fails when \<^verbatim>\<open>enabled_providers\<close> is a plain \<^verbatim>\<open>str\<close>: the items of
  \<^verbatim>\<open>"github-enterprise discord"\<close> are its characters and \<^verbatim>\<open>"github"\<close> is none of
  them, yet the result keeps the \<^verbatim>\<open>github\<close> entry, because \<^verbatim>\<open>in\<close> on a str tests
  for a substring.
\<close>

theorem get_configured_providers_str_keeps_substring:
  "''github'' \<notin> set (items (Str ''github-enterprise discord''))
   \<and> map_of (get_configured_providers
      \<lparr> redirect_base_url = ''https://example.com'', route_prefix = ''/auth'',
        success_redirect = ''/dashboard'', failure_redirect = ''/login?error=oauth'',
        state_ttl = 600, enabled_providers = Some (Str ''github-enterprise discord''),
        github_client_id = Some ''id'', github_client_secret = Some ''secret'',
        github_scope = ''read:user user:email'',
        google_client_id = None, google_client_secret = None,
        google_scope = ''openid email profile'',
        discord_client_id = None, discord_client_secret = None,
        discord_scope = ''identify email'' \<rparr>) ''github''
    = Some [(''client_id'', ''id''), (''client_secret'', ''secret''),
            (''scope'', ''read:user user:email'')]"
  by (simp add: get_configured_providers_lookup)

text \<open>
  C8, amended: the result of \<^verbatim>\<open>get_configured_providers\<close> is a dict (no key twice)
  that maps a name to a configuration exactly when the name is \<^verbatim>\<open>github\<close>,
  \<^verbatim>\<open>google\<close> or \<^verbatim>\<open>discord\<close>, that provider's client id and client secret are both
  non-empty strings, the configuration is that provider's \<^verbatim>\<open>client_id\<close>,
  \<^verbatim>\<open>client_secret\<close> and \<^verbatim>\<open>scope\<close>, and \<^verbatim>\<open>enabled_providers\<close> is \<^verbatim>\<open>None\<close>, or a
  list or tuple that has the name among its items, or a plain str in which the name
  occurs as a substring.
\<close>

theorem get_configured_providers_exact:
  "distinct (map fst (get_configured_providers cfg)) \<and>
   (map_of (get_configured_providers cfg) name = Some conf \<longleftrightarrow>
     (case enabled_providers cfg of
        None \<Rightarrow> True
      | Some (Names xs) \<Rightarrow> name \<in> set xs
      | Some (Str s) \<Rightarrow> (\<exists>pre post. s = pre @ name @ post)) \<and>
     (name = ''github'' \<and>
        (\<exists>cid secret. github_client_id cfg = Some cid \<and> cid \<noteq> [] \<and>
           github_client_secret cfg = Some secret \<and> secret \<noteq> [] \<and>
           conf = [(''client_id'', cid), (''client_secret'', secret),
                   (''scope'', github_scope cfg)])
      \<or> name = ''google'' \<and>
        (\<exists>cid secret. google_client_id cfg = Some cid \<and> cid \<noteq> [] \<and>
           google_client_secret cfg = Some secret \<and> secret \<noteq> [] \<and>
           conf = [(''client_id'', cid), (''client_secret'', secret),
                   (''scope'', google_scope cfg)])
      \<or> name = ''discord'' \<and>
        (\<exists>cid secret. discord_client_id cfg = Some cid \<and> cid \<noteq> [] \<and>
           discord_client_secret cfg = Some secret \<and> secret \<noteq> [] \<and>
           conf = [(''client_id'', cid), (''client_secret'', secret),
                   (''scope'', discord_scope cfg)])))"
proof -
  have "(case enabled_providers cfg of None \<Rightarrow> True | Some enabled \<Rightarrow> py_in name enabled)
     = (case enabled_providers cfg of
          None \<Rightarrow> True
        | Some (Names xs) \<Rightarrow> name \<in> set xs
        | Some (Str s) \<Rightarrow> (\<exists>pre post. s = pre @ name @ post))"
    by (simp add: str_contains_iff split: option.split str_sequence.split)
  then show ?thesis
    using get_configured_providers_distinct [of cfg]
      get_configured_providers_lookup [of cfg name conf]
    by simp
qed

theorem get_configured_providers_exact_witness:
  "map_of (get_configured_providers
      \<lparr> redirect_base_url = ''https://example.com'', route_prefix = ''/auth'',
        success_redirect = ''/dashboard'', failure_redirect = ''/login?error=oauth'',
        state_ttl = 600, enabled_providers = Some (Names [''github'', ''google'']),
        github_client_id = Some ''id'', github_client_secret = Some ''secret'',
        github_scope = ''read:user user:email'',
        google_client_id = Some '''', google_client_secret = Some ''valid_secret'',
        google_scope = ''openid email profile'',
        discord_client_id = Some ''did'', discord_client_secret = Some ''dsecret'',
        discord_scope = ''identify email'' \<rparr>) ''github''
    = Some [(''client_id'', ''id''), (''client_secret'', ''secret''),
            (''scope'', ''read:user user:email'')]
   \<and> map_of (get_configured_providers
      \<lparr> redirect_base_url = ''https://example.com'', route_prefix = ''/auth'',
        success_redirect = ''/dashboard'', failure_redirect = ''/login?error=oauth'',
        state_ttl = 600, enabled_providers = Some (Str ''a discord b''),
        github_client_id = Some ''id'', github_client_secret = Some ''secret'',
        github_scope = ''read:user user:email'',
        google_client_id = Some '''', google_client_secret = Some ''valid_secret'',
        google_scope = ''openid email profile'',
        discord_client_id = Some ''did'', discord_client_secret = Some ''dsecret'',
        discord_scope = ''identify email'' \<rparr>) ''discord''
    = Some [(''client_id'', ''did''), (''client_secret'', ''dsecret''),
            (''scope'', ''identify email'')]"
proof -
  have "''a discord b'' = ''a '' @ ''discord'' @ '' b''"
    by simp
  then have sub: "\<exists>pre post. ''a discord b'' = pre @ ''discord'' @ post"
    by blast
  from sub
    get_configured_providers_exact
    [of "\<lparr> redirect_base_url = ''https://example.com'', route_prefix = ''/auth'',
        success_redirect = ''/dashboard'', failure_redirect = ''/login?error=oauth'',
        state_ttl = 600, enabled_providers = Some (Names [''github'', ''google'']),
        github_client_id = Some ''id'', github_client_secret = Some ''secret'',
        github_scope = ''read:user user:email'',
        google_client_id = Some '''', google_client_secret = Some ''valid_secret'',
        google_scope = ''openid email profile'',
        discord_client_id = Some ''did'', discord_client_secret = Some ''dsecret'',
        discord_scope = ''identify email'' \<rparr>" "''github''"
      "[(''client_id'', ''id''), (''client_secret'', ''secret''),
        (''scope'', ''read:user user:email'')]"]
    get_configured_providers_exact
    [of "\<lparr> redirect_base_url = ''https://example.com'', route_prefix = ''/auth'',
        success_redirect = ''/dashboard'', failure_redirect = ''/login?error=oauth'',
        state_ttl = 600, enabled_providers = Some (Str ''a discord b''),
        github_client_id = Some ''id'', github_client_secret = Some ''secret'',
        github_scope = ''read:user user:email'',
        google_client_id = Some '''', google_client_secret = Some ''valid_secret'',
        google_scope = ''openid email profile'',
        discord_client_id = Some ''did'', discord_client_secret = Some ''dsecret'',
        discord_scope = ''identify email'' \<rparr>" "''discord''"
      "[(''client_id'', ''did''), (''client_secret'', ''dsecret''),
        (''scope'', ''identify email'')]"]
  show ?thesis
    by simp
qed

text \<open>
  C10: when \<^verbatim>\<open>enabled_providers\<close> is an empty sequence (an empty list or tuple, or
  the empty str), \<^verbatim>\<open>get_configured_providers\<close> returns the empty dict, whatever
  credentials are set.
\<close>

theorem get_configured_providers_none_enabled:
  "enabled_providers cfg = Some enabled \<Longrightarrow> items enabled = [] \<Longrightarrow>
   get_configured_providers cfg = []"
  unfolding get_configured_providers_unfold three_filter
  by (cases enabled) simp_all

theorem get_configured_providers_none_enabled_witness:
  "get_configured_providers
      \<lparr> redirect_base_url = ''https://example.com'', route_prefix = ''/auth'',
        success_redirect = ''/dashboard'', failure_redirect = ''/login?error=oauth'',
        state_ttl = 600, enabled_providers = Some (Names []),
        github_client_id = Some ''gid'', github_client_secret = Some ''gsecret'',
        github_scope = ''read:user user:email'',
        google_client_id = Some ''oid'', google_client_secret = Some ''osecret'',
        google_scope = ''openid email profile'',
        discord_client_id = Some ''did'', discord_client_secret = Some ''dsecret'',
        discord_scope = ''identify email'' \<rparr> = []
   \<and> get_configured_providers
      \<lparr> redirect_base_url = ''https://example.com'', route_prefix = ''/auth'',
        success_redirect = ''/dashboard'', failure_redirect = ''/login?error=oauth'',
        state_ttl = 600, enabled_providers = Some (Str ''''),
        github_client_id = Some ''gid'', github_client_secret = Some ''gsecret'',
        github_scope = ''read:user user:email'',
        google_client_id = Some ''oid'', google_client_secret = Some ''osecret'',
        google_scope = ''openid email profile'',
        discord_client_id = Some ''did'', discord_client_secret = Some ''dsecret'',
        discord_scope = ''identify email'' \<rparr> = []"
proof
  show "get_configured_providers
      \<lparr> redirect_base_url = ''https://example.com'', route_prefix = ''/auth'',
        success_redirect = ''/dashboard'', failure_redirect = ''/login?error=oauth'',
        state_ttl = 600, enabled_providers = Some (Names []),
        github_client_id = Some ''gid'', github_client_secret = Some ''gsecret'',
        github_scope = ''read:user user:email'',
        google_client_id = Some ''oid'', google_client_secret = Some ''osecret'',
        google_scope = ''openid email profile'',
        discord_client_id = Some ''did'', discord_client_secret = Some ''dsecret'',
        discord_scope = ''identify email'' \<rparr> = []"
    by (rule get_configured_providers_none_enabled [where enabled = "Names []"]) simp_all
  show "get_configured_providers
      \<lparr> redirect_base_url = ''https://example.com'', route_prefix = ''/auth'',
        success_redirect = ''/dashboard'', failure_redirect = ''/login?error=oauth'',
        state_ttl = 600, enabled_providers = Some (Str ''''),
        github_client_id = Some ''gid'', github_client_secret = Some ''gsecret'',
        github_scope = ''read:user user:email'',
        google_client_id = Some ''oid'', google_client_secret = Some ''osecret'',
        google_scope = ''openid email profile'',
        discord_client_id = Some ''did'', discord_client_secret = Some ''dsecret'',
        discord_scope = ''identify email'' \<rparr> = []"
    by (rule get_configured_providers_none_enabled [where enabled = "Str ''''"]) simp_all
qed

section \<open>Properties of the state store and of login completion\<close>

lemma records_run_call_other:
  "call_token c \<noteq> t \<Longrightarrow> records (run_call s c) t = records s t"
  by (cases c) (auto simp: Create_def Validate_def Let_def split: option.splits)

lemma records_run_calls_other:
  "\<forall>c \<in> set cs. call_token c \<noteq> t \<Longrightarrow> records (run_calls s cs) t = records s t"
  by (induction cs arbitrary: s) (simp_all add: records_run_call_other)

lemma records_run_call_absent:
  "records s t = None \<Longrightarrow> \<not> issues t c \<Longrightarrow> records (run_call s c) t = None"
  by (cases c) (auto simp: Create_def Validate_def Let_def split: option.splits)

lemma records_run_calls_absent:
  "records s t = None \<Longrightarrow> \<forall>c \<in> set cs. \<not> issues t c \<Longrightarrow>
   records (run_calls s cs) t = None"
  by (induction cs arbitrary: s) (simp_all add: records_run_call_absent)

lemma Validate_absent: "records s t = None \<Longrightarrow> Validate s now t = (None, s)"
  by (simp add: Validate_def)

lemma Validate_live:
  "records s t = Some r \<Longrightarrow> now \<le> expiresAt r \<Longrightarrow>
   Validate s now t = (Some r, s\<lparr>records := (records s)(t := None)\<rparr>)"
  by (simp add: Validate_def)

text \<open>
  C1: let \<open>t\<close> be the token returned by a \<open>Create\<close> at clock \<open>c\<close>. After any calls
  about other tokens, the first \<open>Validate\<close> of \<open>t\<close>, made no later than the record's
  expiry, returns the record that \<open>Create\<close> built. After that, and after any further
  calls that do not issue \<open>t\<close> again (further validations of \<open>t\<close> among them), a
  \<open>Validate\<close> of \<open>t\<close> at any clock returns not-found.
\<close>

theorem Validate_consumes_once:
  assumes created: "Create s0 c fresh p u ttl nx ex = (t, s1)"
    and before: "\<forall>call \<in> set before. call_token call \<noteq> t"
    and window: "now1 \<le> c + of_seconds (case ttl of None \<Rightarrow> defaultTTL s0 | Some d \<Rightarrow> d)"
    and first: "Validate (run_calls s1 before) now1 t = (found, s2)"
    and after: "\<forall>call \<in> set after. \<not> issues t call"
  shows "found = Some \<lparr> token = t, provider = p, redirectURI = u, createdAt = c,
                        expiresAt = c + of_seconds (case ttl of None \<Rightarrow> defaultTTL s0 | Some d \<Rightarrow> d),
                        nextURL = nx, extra = ex \<rparr>
         \<and> fst (Validate (run_calls s2 after) now2 t) = None"
proof -
  let ?r = "\<lparr> token = t, provider = p, redirectURI = u, createdAt = c,
              expiresAt = c + of_seconds (case ttl of None \<Rightarrow> defaultTTL s0 | Some d \<Rightarrow> d),
              nextURL = nx, extra = ex \<rparr>"
  from created have stored: "records s1 t = Some ?r"
    by (auto simp: Create_def Let_def)
  from before have "records (run_calls s1 before) t = Some ?r"
    by (simp add: records_run_calls_other stored)
  with window have "Validate (run_calls s1 before) now1 t =
      (Some ?r, (run_calls s1 before)\<lparr>records := (records (run_calls s1 before))(t := None)\<rparr>)"
    by (simp add: Validate_live)
  with first have found: "found = Some ?r" and "records s2 t = None"
    by auto
  with after have "records (run_calls s2 after) t = None"
    by (simp add: records_run_calls_absent)
  then have "fst (Validate (run_calls s2 after) now2 t) = None"
    by (simp add: Validate_absent)
  with found show ?thesis by simp
qed

theorem Validate_consumes_once_witness:
  "fst (Validate
         (run_calls
           (snd (Create \<lparr> defaultTTL = 600, records = Map.empty \<rparr> 0 ''tok'' ''github''
                   ''http://localhost/callback'' None (Some ''/dashboard'') []))
           [CallCreate 1000000 ''other'' ''google'' ''http://localhost/callback'' (Some 300)
              None [],
            CallValidate 2000000 ''other''])
         5000000 ''tok'')
     = Some \<lparr> token = ''tok'', provider = ''github'',
              redirectURI = ''http://localhost/callback'', createdAt = 0,
              expiresAt = 600000000, nextURL = Some ''/dashboard'', extra = [] \<rparr>
   \<and> fst (Validate
         (run_calls
           (snd (Validate
                  (run_calls
                    (snd (Create \<lparr> defaultTTL = 600, records = Map.empty \<rparr> 0 ''tok''
                            ''github'' ''http://localhost/callback'' None
                            (Some ''/dashboard'') []))
                    [CallCreate 1000000 ''other'' ''google'' ''http://localhost/callback''
                       (Some 300) None [],
                     CallValidate 2000000 ''other''])
                  5000000 ''tok''))
           [CallValidate 6000000 ''tok''])
         7000000 ''tok'')
     = None"
proof -
  let ?s0 = "\<lparr> defaultTTL = 600, records = Map.empty \<rparr>"
  let ?before = "[CallCreate 1000000 ''other'' ''google'' ''http://localhost/callback''
                    (Some 300) None [],
                  CallValidate 2000000 ''other'']"
  let ?s1 = "snd (Create ?s0 0 ''tok'' ''github'' ''http://localhost/callback'' None
                    (Some ''/dashboard'') [])"
  have created: "Create ?s0 0 ''tok'' ''github'' ''http://localhost/callback'' None
                    (Some ''/dashboard'') [] = (''tok'', ?s1)"
    by (simp add: Create_def)
  have before: "\<forall>call \<in> set ?before. call_token call \<noteq> ''tok''"
    by simp
  have window: "5000000 \<le> 0 + of_seconds (case None of None \<Rightarrow> defaultTTL ?s0 | Some d \<Rightarrow> d)"
    by (simp add: of_seconds_def)
  have first: "Validate (run_calls ?s1 ?before) 5000000 ''tok''
      = (fst (Validate (run_calls ?s1 ?before) 5000000 ''tok''),
         snd (Validate (run_calls ?s1 ?before) 5000000 ''tok''))"
    by simp
  have after: "\<forall>call \<in> set [CallValidate 6000000 ''tok'']. \<not> issues ''tok'' call"
    by simp
  from Validate_consumes_once [OF created before window first after, of 7000000]
  show ?thesis
    by (simp add: of_seconds_def)
qed

text \<open>
  C2: when the state token resolves to a stored record whose provider differs from
  \<open>providerName\<close>, \<open>CompleteLogin\<close> fails with \<open>StateValidationError\<close> and invokes
  no provider operation: the list of invoked operations is what it was before the call.
\<close>

theorem CompleteLogin_provider_mismatch:
  assumes "records (stateStore orch) st = Some r"
    and "StateRecord.provider r \<noteq> providerName"
  shows "fst (CompleteLogin orch now providerName code st) = Inl StateValidationError
         \<and> invoked (snd (CompleteLogin orch now providerName code st)) = invoked orch"
  using assms by (simp add: CompleteLogin_def Validate_def Let_def)

theorem CompleteLogin_provider_mismatch_witness:
  "fst (CompleteLogin
         \<lparr> stateStore = \<lparr> defaultTTL = 600,
             records = [''tok'' \<mapsto> \<lparr> token = ''tok'', provider = ''github'',
               redirectURI = ''http://localhost/callback'', createdAt = 0,
               expiresAt = 600000000, nextURL = None, extra = [] \<rparr>] \<rparr>,
           registry = [''google'' \<mapsto> \<lparr> exchangeCode = (\<lambda>code uri. Inl TokenExchangeError),
               fetchUserInfo = (\<lambda>access. Inl UserInfoError),
               normalize = (\<lambda>raw. Inl UserInfoError) \<rparr>],
           invoked = [] \<rparr>
         1000000 ''google'' ''code123'' ''tok'') = Inl StateValidationError
   \<and> invoked (snd (CompleteLogin
         \<lparr> stateStore = \<lparr> defaultTTL = 600,
             records = [''tok'' \<mapsto> \<lparr> token = ''tok'', provider = ''github'',
               redirectURI = ''http://localhost/callback'', createdAt = 0,
               expiresAt = 600000000, nextURL = None, extra = [] \<rparr>] \<rparr>,
           registry = [''google'' \<mapsto> \<lparr> exchangeCode = (\<lambda>code uri. Inl TokenExchangeError),
               fetchUserInfo = (\<lambda>access. Inl UserInfoError),
               normalize = (\<lambda>raw. Inl UserInfoError) \<rparr>],
           invoked = [] \<rparr>
         1000000 ''google'' ''code123'' ''tok'')) = []"
proof -
  let ?r = "\<lparr> token = ''tok'', provider = ''github'',
               redirectURI = ''http://localhost/callback'', createdAt = 0,
               expiresAt = 600000000, nextURL = None, extra = [] \<rparr>"
  let ?orch = "\<lparr> stateStore = \<lparr> defaultTTL = 600, records = [''tok'' \<mapsto> ?r] \<rparr>,
           registry = [''google'' \<mapsto> \<lparr> exchangeCode = (\<lambda>code uri. Inl TokenExchangeError),
               fetchUserInfo = (\<lambda>access. Inl UserInfoError),
               normalize = (\<lambda>raw. Inl UserInfoError) \<rparr>],
           invoked = [] \<rparr>"
  have stored: "records (stateStore ?orch) ''tok'' = Some ?r"
    by simp
  have differs: "StateRecord.provider ?r \<noteq> ''google''"
    by simp
  from CompleteLogin_provider_mismatch [OF stored differs, of 1000000 "''code123''"]
  show ?thesis by simp
qed

end
